theory Spec2Isabelle
  imports Complex_Main "HOL-Library.AList"
begin

section \<open>JavaScript values used by the client\<close>

text \<open>
  A JavaScript number is an IEEE double: not-a-number, one of the two infinities, or a
  finite value, kept here as the exact rational the double denotes. The two zeros are one
  value \<open>Fin 0\<close>: the client only compares, floors and tests truthiness, and none of
  these tells \<open>-0\<close> from \<open>+0\<close>.
\<close>

datatype jsnum = NaN | PosInf | NegInf | Fin rat

definition isNaN :: "jsnum \<Rightarrow> bool" where
  "isNaN n = (n = NaN)"

definition isFinite :: "jsnum \<Rightarrow> bool" where
  "isFinite n = (case n of Fin q \<Rightarrow> True | _ \<Rightarrow> False)"

text \<open>The relational operators \<open>a < b\<close> and \<open>a <= b\<close> on numbers; any comparison
  with NaN is false.\<close>

fun js_less :: "jsnum \<Rightarrow> jsnum \<Rightarrow> bool" where
  "js_less NaN b = False"
| "js_less a NaN = False"
| "js_less (Fin a) (Fin b) = (a < b)"
| "js_less a NegInf = False"
| "js_less NegInf b = True"
| "js_less PosInf b = False"
| "js_less a PosInf = True"

definition js_le :: "jsnum \<Rightarrow> jsnum \<Rightarrow> bool" where
  "js_le a b = (a \<noteq> NaN \<and> b \<noteq> NaN \<and> \<not> js_less b a)"

text \<open>\<open>n > 0\<close> and \<open>n >= 0\<close> as the source writes them.\<close>

definition gt0 :: "jsnum \<Rightarrow> bool" where
  "gt0 n = js_less (Fin 0) n"

definition ge0 :: "jsnum \<Rightarrow> bool" where
  "ge0 n = js_le (Fin 0) n"

text \<open>\<open>Math.floor\<close>: the infinities and NaN are returned as they are.\<close>

fun floor_js :: "jsnum \<Rightarrow> jsnum" where
  "floor_js (Fin q) = Fin (of_int \<lfloor>q\<rfloor>)"
| "floor_js n = n"

fun negate :: "jsnum \<Rightarrow> jsnum" where
  "negate NaN = NaN"
| "negate PosInf = NegInf"
| "negate NegInf = PosInf"
| "negate (Fin q) = Fin (- q)"

text \<open>
  Values: \<open>undefined\<close>, \<open>null\<close>, booleans, numbers, strings, and plain objects. An
  object is the list of its own enumerable properties in the order they were added (the
  language lists integer-like keys first; nothing below depends on the order). Texts are
  sequences of code units below 256.
\<close>

datatype jsval =
    JUndef
  | JNull
  | JBool bool
  | JNum jsnum
  | JStr string
  | JObj "(string \<times> jsval) list"

type_synonym jsobj = "(string \<times> jsval) list"

text \<open>
  Reading \<open>obj[k]\<close>. A key that is no own property reads as \<open>undefined\<close>; for the names
  that every object inherits the language gives a built-in function or object instead,
  which has no enumerable property of its own and so spreads to the same empty object as
  \<open>undefined\<close>, the only use made of such a read here.
\<close>

definition get_prop :: "jsobj \<Rightarrow> string \<Rightarrow> jsval" where
  "get_prop obj k = (case map_of obj k of None \<Rightarrow> JUndef | Some v \<Rightarrow> v)"

text \<open>
  The assignment \<open>obj[k] = v\<close> on a plain object: an existing property keeps its place, a
  new one goes last. The one exception is the key \<open>__proto__\<close> when the object has no own
  property of that name: the assignment then reaches the inherited setter, which changes
  the prototype at most, and the own properties stay as they are.
\<close>

definition set_prop :: "string \<Rightarrow> jsval \<Rightarrow> jsobj \<Rightarrow> jsobj" where
  "set_prop k v obj =
     (if k = ''__proto__'' \<and> map_of obj k = None then obj else AList.update k v obj)"

text \<open>\<open>Object.keys\<close>.\<close>

definition keys :: "jsobj \<Rightarrow> string list" where
  "keys obj = map fst obj"

text \<open>Truthiness of a string and of a number-or-null (\<open>None\<close> is \<open>null\<close>).\<close>

definition truthy_str :: "string \<Rightarrow> bool" where
  "truthy_str s = (s \<noteq> [])"

fun truthy_num :: "jsnum option \<Rightarrow> bool" where
  "truthy_num None = False"
| "truthy_num (Some NaN) = False"
| "truthy_num (Some (Fin q)) = (q \<noteq> 0)"
| "truthy_num (Some n) = True"

fun num_or_null :: "jsnum option \<Rightarrow> jsval" where
  "num_or_null None = JNull"
| "num_or_null (Some n) = JNum n"

section \<open>The conversion \<open>Number(text)\<close>\<close>

text \<open>
  \<open>Number\<close> applied to a string follows the StringNumericLiteral grammar of the language:
  white space is trimmed, the empty text is 0, then come an optionally signed
  \<open>Infinity\<close> or decimal literal (digits, optional fraction, optional exponent) and the
  unsigned binary, octal and hexadecimal integer literals; everything else is NaN. The
  mathematical value is rounded to the nearest double, ties to even, overflowing to an
  infinity (the language lets an implementation drop digits after the twentieth
  significant one first; the exact rounding taken here is what the engines do).
\<close>

definition is_ws :: "char \<Rightarrow> bool" where
  "is_ws c = ((of_char c :: nat) \<in> {9, 10, 11, 12, 13, 32, 160})"

definition trim :: "string \<Rightarrow> string" where
  "trim s = rev (dropWhile is_ws (rev (dropWhile is_ws s)))"

definition is_digit :: "char \<Rightarrow> bool" where
  "is_digit c = (48 \<le> (of_char c :: nat) \<and> (of_char c :: nat) \<le> 57)"

text \<open>The value of a digit in a radix up to 16, \<open>None\<close> when the character is no digit
  of that radix.\<close>

definition digit_in :: "int \<Rightarrow> char \<Rightarrow> int option" where
  "digit_in radix c =
     (let n = (of_char c :: int);
          d = (if 48 \<le> n \<and> n \<le> 57 then n - 48
               else if 97 \<le> n \<and> n \<le> 102 then n - 87
               else if 65 \<le> n \<and> n \<le> 70 then n - 55
               else 16)
      in if d < radix then Some d else None)"

fun radix_val :: "int \<Rightarrow> int \<Rightarrow> string \<Rightarrow> int option" where
  "radix_val radix acc [] = Some acc"
| "radix_val radix acc (c # cs) =
     (case digit_in radix c of
        None \<Rightarrow> None
      | Some d \<Rightarrow> radix_val radix (radix * acc + d) cs)"

definition digits_val :: "string \<Rightarrow> int option" where
  "digits_val s = (if s = [] then None else radix_val 10 0 s)"

definition pow10 :: "int \<Rightarrow> rat" where
  "pow10 k = (if 0 \<le> k then 10 ^ nat k else 1 / 10 ^ nat (- k))"

definition pow2 :: "int \<Rightarrow> rat" where
  "pow2 k = (if 0 \<le> k then 2 ^ nat k else 1 / 2 ^ nat (- k))"

text \<open>The exponent part after \<open>e\<close> or \<open>E\<close>: an optional sign and at least one digit.\<close>

definition exponent_val :: "string \<Rightarrow> int option" where
  "exponent_val s =
     (case s of
        [] \<Rightarrow> None
      | c # r \<Rightarrow>
          if c = CHR ''+'' then digits_val r
          else if c = CHR ''-'' then map_option uminus (digits_val r)
          else digits_val s)"

text \<open>The mathematical value of an unsigned decimal literal: \<open>D\<close>, \<open>D.\<close>, \<open>D.D\<close> or
  \<open>.D\<close>, each with an optional exponent.\<close>

definition decimal_val :: "string \<Rightarrow> rat option" where
  "decimal_val s =
     (let ip = takeWhile is_digit s;
          r1 = dropWhile is_digit s;
          dot = (r1 \<noteq> [] \<and> hd r1 = CHR ''.'');
          fp = (if dot then takeWhile is_digit (tl r1) else []);
          r2 = (if dot then dropWhile is_digit (tl r1) else r1)
      in if ip = [] \<and> fp = [] then None
         else case radix_val 10 0 (ip @ fp) of
           None \<Rightarrow> None
         | Some m \<Rightarrow>
            (case r2 of
               [] \<Rightarrow> Some (of_int m * pow10 (- int (length fp)))
             | c # r \<Rightarrow>
                 if c = CHR ''e'' \<or> c = CHR ''E'' then
                   (case exponent_val r of
                      None \<Rightarrow> None
                    | Some e \<Rightarrow> Some (of_int m * pow10 (e - int (length fp))))
                 else None))"

text \<open>Rounding a rational to a double: \<open>bit_length\<close> counts the binary digits of a
  positive integer and \<open>ilog2 q\<close> is the exponent \<open>e\<close> with
  \<open>2 ^ e \<le> q < 2 ^ (e + 1)\<close> for a positive \<open>q\<close>.\<close>

function bit_length :: "int \<Rightarrow> int" where
  "bit_length n = (if n \<le> 0 then 0 else 1 + bit_length (n div 2))"
  by pat_completeness auto
termination
  by (relation "measure nat") auto

definition ilog2 :: "rat \<Rightarrow> int" where
  "ilog2 q =
     (let (a, b) = quotient_of q;
          e0 = bit_length a - bit_length b
      in if pow2 e0 \<le> q then e0 else e0 - 1)"

definition round_even :: "rat \<Rightarrow> int" where
  "round_even r =
     (let f = \<lfloor>r\<rfloor>; d = r - of_int f
      in if d < 1 / 2 then f
         else if 1 / 2 < d then f + 1
         else if even f then f else f + 1)"

text \<open>
  A positive rational \<open>q\<close> with \<open>2 ^ e \<le> q < 2 ^ (e + 1)\<close> is rounded to a multiple
  \<open>n\<close> of the spacing \<open>2 ^ (e - 52)\<close> of the doubles around it (the spacing of the
  subnormals below \<open>2 ^ - 1022\<close>). The result \<open>n * 2 ^ (e - 52)\<close> has left the
  finite range when it reaches \<open>2 ^ 1024\<close>, that is when \<open>e\<close> is 1024 or more, or is 1023
  and \<open>n\<close> was rounded up to \<open>2 ^ 53\<close>.
\<close>

definition to_double_pos :: "rat \<Rightarrow> jsnum" where
  "to_double_pos q =
     (let e = max (ilog2 q) (- 1022);
          ulp = pow2 (e - 52);
          n = round_even (q / ulp)
      in if 1024 \<le> e \<or> (e = 1023 \<and> 2 ^ 53 \<le> n) then PosInf
         else Fin (of_int n * ulp))"

definition to_double :: "rat \<Rightarrow> jsnum" where
  "to_double q =
     (if q = 0 then Fin 0
      else if 0 < q then to_double_pos q
      else negate (to_double_pos (- q)))"

definition StrUnsignedDecimalLiteral :: "string \<Rightarrow> jsnum" where
  "StrUnsignedDecimalLiteral s =
     (if s = ''Infinity'' then PosInf
      else case decimal_val s of None \<Rightarrow> NaN | Some q \<Rightarrow> to_double q)"

definition StrDecimalLiteral :: "string \<Rightarrow> jsnum" where
  "StrDecimalLiteral s =
     (case s of
        [] \<Rightarrow> NaN
      | c # r \<Rightarrow>
          if c = CHR ''+'' then StrUnsignedDecimalLiteral r
          else if c = CHR ''-'' then negate (StrUnsignedDecimalLiteral r)
          else StrUnsignedDecimalLiteral s)"

definition NonDecimalIntegerLiteral :: "string \<Rightarrow> int option" where
  "NonDecimalIntegerLiteral s =
     (case s of
        c0 # c1 # r \<Rightarrow>
          if c0 \<noteq> CHR ''0'' \<or> r = [] then None
          else if c1 = CHR ''x'' \<or> c1 = CHR ''X'' then radix_val 16 0 r
          else if c1 = CHR ''o'' \<or> c1 = CHR ''O'' then radix_val 8 0 r
          else if c1 = CHR ''b'' \<or> c1 = CHR ''B'' then radix_val 2 0 r
          else None
      | _ \<Rightarrow> None)"

definition Number :: "string \<Rightarrow> jsnum" where
  "Number v =
     (let t = trim v
      in if t = [] then Fin 0
         else case NonDecimalIntegerLiteral t of
           Some m \<Rightarrow> to_double (of_int m)
         | None \<Rightarrow> StrDecimalLiteral t)"

section \<open>The raw form state and the normalizer\<close>

record resize_group =
  resize_width :: string
  resize_height :: string

record crop_group =
  crop_x :: string
  crop_y :: string
  crop_width :: string
  crop_height :: string

record blur_group =
  blur_radius :: string

record raw_ops =
  resize :: resize_group
  crop :: crop_group
  grayscale :: bool
  sepia :: bool
  blur :: blur_group

definition initialOps :: raw_ops where
  "initialOps =
     \<lparr> resize = \<lparr> resize_width = [], resize_height = [] \<rparr>,
       crop = \<lparr> crop_x = [], crop_y = [], crop_width = [], crop_height = [] \<rparr>,
       grayscale = False,
       sepia = False,
       blur = \<lparr> blur_radius = [] \<rparr> \<rparr>"

definition toInt :: "string \<Rightarrow> jsnum option" where
  "toInt v = (let n = Number v in if isFinite n \<and> gt0 n then Some (floor_js n) else None)"

definition toNonNegInt :: "string \<Rightarrow> jsnum option" where
  "toNonNegInt v = (let n = Number v in if isFinite n \<and> ge0 n then Some (floor_js n) else None)"

text \<open>
  \<open>parsedOps\<close> builds the object \<open>o\<close> by successive property assignments, in the order
  of the source: grayscale, blur, resize, crop, brightness, contrast.
\<close>

definition parsedOps :: "raw_ops \<Rightarrow> string \<Rightarrow> string \<Rightarrow> jsobj" where
  "parsedOps ops brightness contrast =
     (let o0 = [(''grayscale'', JBool (grayscale ops))];
          r = Number (blur_radius (blur ops));
          o1 = (if \<not> isNaN r \<and> gt0 r
                then set_prop ''blur'' (JObj [(''radius'', JNum r)]) o0 else o0);
          rw = toInt (resize_width (resize ops));
          rh = toInt (resize_height (resize ops));
          o2 = (if truthy_num rw \<and> truthy_num rh
                then set_prop ''resize''
                       (JObj [(''width'', num_or_null rw), (''height'', num_or_null rh)]) o1
                else o1);
          cx = toNonNegInt (crop_x (crop ops));
          cy = toNonNegInt (crop_y (crop ops));
          cw = toInt (crop_width (crop ops));
          ch = toInt (crop_height (crop ops));
          o3 = (if cx \<noteq> None \<and> cy \<noteq> None \<and> truthy_num cw \<and> truthy_num ch
                then set_prop ''crop''
                       (JObj [(''x'', num_or_null cx), (''y'', num_or_null cy),
                              (''width'', num_or_null cw), (''height'', num_or_null ch)]) o2
                else o2);
          bf = Number brightness;
          o4 = (if \<not> isNaN bf \<and> gt0 bf \<and> bf \<noteq> Fin 1
                then set_prop ''brightness'' (JObj [(''factor'', JNum bf)]) o3 else o3);
          cf = Number contrast;
          o5 = (if \<not> isNaN cf \<and> gt0 cf \<and> cf \<noteq> Fin 1
                then set_prop ''contrast'' (JObj [(''factor'', JNum cf)]) o4 else o4)
      in o5)"

section \<open>Patching the raw state by path\<close>

text \<open>
  \<open>updateOps\<close> works on the state as a plain object: it splits the path at the dots,
  takes the first two parts as root (\<open>rt\<close> below) and key, and either rebuilds the group
  under the root with the key replaced, or replaces the root itself. The computed key of
  the object literal \<open>{...next[root], [key]: value}\<close> always defines an own property.
  \<open>ops_obj\<close> is the typed raw state seen as that object.
\<close>

definition ops_obj :: "raw_ops \<Rightarrow> jsobj" where
  "ops_obj ops =
     [(''resize'', JObj [(''width'', JStr (resize_width (resize ops))),
                         (''height'', JStr (resize_height (resize ops)))]),
      (''crop'', JObj [(''x'', JStr (crop_x (crop ops))),
                       (''y'', JStr (crop_y (crop ops))),
                       (''width'', JStr (crop_width (crop ops))),
                       (''height'', JStr (crop_height (crop ops)))]),
      (''grayscale'', JBool (grayscale ops)),
      (''sepia'', JBool (sepia ops)),
      (''blur'', JObj [(''radius'', JStr (blur_radius (blur ops)))])]"

text \<open>\<open>path.split('.')\<close>: the pieces between the dots; the empty text splits into one
  empty piece.\<close>

fun split_on :: "char \<Rightarrow> string \<Rightarrow> string list" where
  "split_on d [] = [[]]"
| "split_on d (c # cs) =
     (if c = d then [] # split_on d cs
      else (case split_on d cs of
              [] \<Rightarrow> [[c]]
            | p # ps \<Rightarrow> (c # p) # ps))"

text \<open>Decimal text of a natural number, as in a template literal or a property index.\<close>

fun show_nat :: "nat \<Rightarrow> string" where
  "show_nat n =
     (if n < 10 then [char_of (48 + n)]
      else show_nat (n div 10) @ [char_of (48 + n mod 10)])"

declare show_nat.simps [simp del]

text \<open>Object spread \<open>{...v}\<close>: the own properties of an object, the indexed characters of
  a string, nothing for any other value.\<close>

fun spread :: "jsval \<Rightarrow> jsobj" where
  "spread (JObj ps) = ps"
| "spread (JStr s) = map (\<lambda>(i, c). (show_nat i, JStr [c])) (enumerate 0 s)"
| "spread v = []"

definition updateOps :: "string \<Rightarrow> jsval \<Rightarrow> jsobj \<Rightarrow> jsobj" where
  "updateOps path v prev =
     (let next = prev
      in case split_on CHR ''.'' path of
           [] \<Rightarrow> set_prop ''undefined'' v next
         | [rt] \<Rightarrow> set_prop rt v next
         | rt # key # rest \<Rightarrow>
             if truthy_str key
             then set_prop rt
                    (JObj (AList.update key v (spread (get_prop next rt)))) next
             else set_prop rt v next)"

section \<open>Session state and the three flows\<close>

record variant =
  variant_id :: string
  variant_filename :: string

record image =
  image_id :: string
  filename :: string
  size_bytes :: nat
  variants :: "variant list"

text \<open>The chosen file is the state variable \<open>file\<close> of the source, here
  \<open>uploadFile\<close>.\<close>

datatype file_handle = File string

record state =
  uploading :: bool
  processing :: bool
  error :: string
  notice :: string
  uploadFile :: "file_handle option"
  images :: "image list"
  selectedImageId :: string
  ops :: raw_ops
  brightness :: string
  contrast :: string

text \<open>The state of the first render, from the \<open>useState\<close> initial values.\<close>

definition initialState :: state where
  "initialState =
     \<lparr> uploading = False, processing = False, error = [], notice = [],
       uploadFile = None, images = [], selectedImageId = [],
       ops = initialOps, brightness = ''1'', contrast = ''1'' \<rparr>"

text \<open>
  A thrown value is an error object with a name and a message. \<open>error_text\<close> is
  \<open>String(e.message || e)\<close>, where the string form of an error object is its name, its
  message, or both joined by a colon.
\<close>

datatype error_value = Error (err_name: string) (err_message: string)

definition error_toString :: "error_value \<Rightarrow> string" where
  "error_toString e =
     (if err_name e = [] then err_message e
      else if err_message e = [] then err_name e
      else err_name e @ '': '' @ err_message e)"

definition error_text :: "error_value \<Rightarrow> string" where
  "error_text e = (if truthy_str (err_message e) then err_message e else error_toString e)"

text \<open>
  What the backend answers to one request: \<open>fetch\<close> rejects with an error, or resolves to
  a response with a status code. Of the body the client reads two things: \<open>json\<close>, the
  result of \<open>res.json()\<close> (a rejection when the body is not JSON, else the value at the type
  the endpoint promises: the list of images, the uploaded image, or nothing that is read),
  and \<open>detail\<close>, the text of what \<open>msg?.detail\<close> gives after \<open>safeReadJson\<close>
  (\<open>None\<close> when the body is unreadable, null, or has no such field).
\<close>

datatype 'a response = Response (status: nat) (json: "error_value + 'a") (detail: "string option")

type_synonym 'a fetched = "error_value + 'a response"

definition ok :: "'a response \<Rightarrow> bool" where
  "ok res = (200 \<le> status res \<and> status res \<le> 299)"

text \<open>\<open>msg?.detail || fallback\<close>.\<close>

definition detail_or :: "string option \<Rightarrow> string \<Rightarrow> string" where
  "detail_or d fallback =
     (case d of None \<Rightarrow> fallback | Some m \<Rightarrow> if truthy_str m then m else fallback)"

text \<open>The requests a flow sends, in order.\<close>

datatype request =
    GetImages
  | PostUpload file_handle
  | PostProcess string jsobj

text \<open>
  \<open>fetchImages\<close> reads \<open>selectedImageId\<close> from the closure of the render that created
  it (the argument \<open>sel\<close>) and writes through the setters into the current state. Each
  branch of the \<open>try\<close> that throws does so before any setter has run, so the
  \<open>catch\<close> starts from the state the \<open>try\<close> was entered with.
\<close>

definition fetchImages :: "string \<Rightarrow> image list fetched \<Rightarrow> state \<Rightarrow> state" where
  "fetchImages sel listed s =
     (case listed of
        Inl e \<Rightarrow> s\<lparr>error := error_text e\<rparr>
      | Inr res \<Rightarrow>
          if \<not> ok res
          then s\<lparr>error := error_text
                  (Error ''Error'' (''Failed to list images ('' @ show_nat (status res) @ '')''))\<rparr>
          else (case json res of
                  Inl e \<Rightarrow> s\<lparr>error := error_text e\<rparr>
                | Inr data \<Rightarrow>
                    (let s1 = s\<lparr>images := data\<rparr>
                     in if \<not> truthy_str sel \<and> length data \<noteq> 0
                        then s1\<lparr>selectedImageId := image_id (data ! 0)\<rparr>
                        else s1)))"

text \<open>The images a list request delivers: those of a 2xx answer whose body is readable;
  in every other case the refresh has failed.\<close>

definition listing :: "image list fetched \<Rightarrow> image list option" where
  "listing listed =
     (case listed of
        Inl e \<Rightarrow> None
      | Inr res \<Rightarrow>
          if ok res then (case json res of Inl e \<Rightarrow> None | Inr data \<Rightarrow> Some data)
          else None)"

text \<open>The \<open>try\<close> block of \<open>doUpload\<close>: the requests sent, and the thrown error or the
  state reached.\<close>

definition upload_try ::
  "file_handle \<Rightarrow> image fetched \<Rightarrow> image list fetched \<Rightarrow> string \<Rightarrow> state
     \<Rightarrow> request list \<times> (error_value + state)" where
  "upload_try f uploaded listed sel s =
     (case uploaded of
        Inl e \<Rightarrow> ([PostUpload f], Inl e)
      | Inr res \<Rightarrow>
          if \<not> ok res
          then ([PostUpload f],
                Inl (Error ''Error''
                  (detail_or (detail res) (''Upload failed ('' @ show_nat (status res) @ '')''))))
          else (case json res of
                  Inl e \<Rightarrow> ([PostUpload f], Inl e)
                | Inr data \<Rightarrow>
                    (let s1 = s\<lparr>notice := ''Upload successful.''\<rparr>;
                         s2 = s1\<lparr>uploadFile := None\<rparr>;
                         s3 = fetchImages sel listed s2
                     in ([PostUpload f, GetImages],
                         Inr (s3\<lparr>selectedImageId := image_id data\<rparr>)))))"

definition doUpload :: "image fetched \<Rightarrow> image list fetched \<Rightarrow> state \<Rightarrow> state \<times> request list" where
  "doUpload uploaded listed s =
     (case uploadFile s of
        None \<Rightarrow> (s\<lparr>error := ''Please choose an image to upload.''\<rparr>, [])
      | Some f \<Rightarrow>
          (let s1 = s\<lparr>uploading := True\<rparr>;
               s2 = s1\<lparr>error := []\<rparr>;
               s3 = s2\<lparr>notice := []\<rparr>;
               (reqs, r) = upload_try f uploaded listed (selectedImageId s) s3;
               s4 = (case r of Inl e \<Rightarrow> s3\<lparr>error := error_text e\<rparr> | Inr s' \<Rightarrow> s')
           in (s4\<lparr>uploading := False\<rparr>, reqs)))"

text \<open>The \<open>try\<close> block of \<open>doProcess\<close>; the body of a successful answer is read and
  dropped.\<close>

definition process_try ::
  "jsobj \<Rightarrow> unit fetched \<Rightarrow> image list fetched \<Rightarrow> string \<Rightarrow> state
     \<Rightarrow> request list \<times> (error_value + state)" where
  "process_try operations processed listed sel s =
     (case processed of
        Inl e \<Rightarrow> ([PostProcess sel operations], Inl e)
      | Inr res \<Rightarrow>
          if \<not> ok res
          then ([PostProcess sel operations],
                Inl (Error ''Error''
                  (detail_or (detail res) (''Process failed ('' @ show_nat (status res) @ '')''))))
          else (case json res of
                  Inl e \<Rightarrow> ([PostProcess sel operations], Inl e)
                | Inr u \<Rightarrow>
                    (let s1 = s\<lparr>notice := ''Processing complete.''\<rparr>;
                         s2 = fetchImages sel listed s1
                     in ([PostProcess sel operations, GetImages], Inr s2))))"

text \<open>The part of \<open>doProcess\<close> after its two guards.\<close>

definition process_run :: "unit fetched \<Rightarrow> image list fetched \<Rightarrow> state \<Rightarrow> state \<times> request list" where
  "process_run processed listed s =
     (let s1 = s\<lparr>processing := True\<rparr>;
          s2 = s1\<lparr>error := []\<rparr>;
          s3 = s2\<lparr>notice := []\<rparr>;
          (reqs, r) = process_try (parsedOps (ops s) (brightness s) (contrast s))
                        processed listed (selectedImageId s) s3;
          s4 = (case r of Inl e \<Rightarrow> s3\<lparr>error := error_text e\<rparr> | Inr s' \<Rightarrow> s')
      in (s4\<lparr>processing := False\<rparr>, reqs))"

definition doProcess :: "unit fetched \<Rightarrow> image list fetched \<Rightarrow> state \<Rightarrow> state \<times> request list" where
  "doProcess processed listed s =
     (if \<not> truthy_str (selectedImageId s)
      then (s\<lparr>error := ''Please select an image to process.''\<rparr>, [])
      else if length (keys (parsedOps (ops s) (brightness s) (contrast s))) = 0
      then (s\<lparr>error := ''Choose at least one operation.''\<rparr>, [])
      else process_run processed listed s)"

section \<open>The rules in the words of the specification\<close>

text \<open>
  The specification words the rule for a positive integer field as: the numeric parse
  succeeds, the value is finite, the value is \<open>> 0\<close> (and is then floored); for a
  non-negative one with \<open>>= 0\<close>; for a factor as: a real number that is finite,
  \<open>> 0\<close> and not the neutral value 1.
\<close>

definition spec_positive_int :: "string \<Rightarrow> bool" where
  "spec_positive_int t = (let n = Number t in \<not> isNaN n \<and> isFinite n \<and> gt0 n)"

definition spec_nonneg_int :: "string \<Rightarrow> bool" where
  "spec_nonneg_int t = (let n = Number t in \<not> isNaN n \<and> isFinite n \<and> ge0 n)"

definition spec_factor :: "string \<Rightarrow> bool" where
  "spec_factor t = (let n = Number t in \<not> isNaN n \<and> isFinite n \<and> gt0 n \<and> n \<noteq> Fin 1)"

text \<open>What the code accepts, read off the number itself: a finite value of at least 1, a
  finite value of at least 0, and a factor that is positive, not 1, and possibly
  infinite.\<close>

definition at_least_one :: "jsnum \<Rightarrow> bool" where
  "at_least_one n = (case n of Fin q \<Rightarrow> 1 \<le> q | _ \<Rightarrow> False)"

definition nonneg_finite :: "jsnum \<Rightarrow> bool" where
  "nonneg_finite n = (case n of Fin q \<Rightarrow> 0 \<le> q | _ \<Rightarrow> False)"

definition factor_sent :: "jsnum \<Rightarrow> bool" where
  "factor_sent n = (case n of Fin q \<Rightarrow> 0 < q \<and> q \<noteq> 1 | PosInf \<Rightarrow> True | _ \<Rightarrow> False)"

section \<open>Properties of the normalizer\<close>

subsection \<open>Conversions of the texts used below\<close>

lemma Number_empty: "Number [] = Fin 0"
  by code_simp

lemma Number_0: "Number ''0'' = Fin 0"
  by code_simp

lemma Number_1: "Number ''1'' = Fin 1"
  by code_simp

lemma Number_half: "Number ''0.5'' = Fin (1 / 2)"
  by code_simp

lemma Number_50: "Number ''50'' = Fin 50"
  by code_simp

lemma Number_600: "Number ''600'' = Fin 600"
  by code_simp

lemma Number_800: "Number ''800'' = Fin 800"
  by code_simp

lemma Number_100: "Number ''100'' = Fin 100"
  by code_simp

lemma Number_minus_1: "Number ''-1'' = Fin (- 1)"
  by code_simp

lemma Number_minus_2: "Number ''-2'' = Fin (- 2)"
  by code_simp

lemma Number_1_5: "Number ''1.5'' = Fin (3 / 2)"
  by code_simp

lemma Number_Infinity: "Number ''Infinity'' = PosInf"
  by code_simp

lemma Number_abc: "Number ''abc'' = NaN"
  by code_simp

subsection \<open>The shape of the normalized set\<close>

lemma update_fresh: "k \<notin> fst ` set al \<Longrightarrow> AList.update k v al = al @ [(k, v)]"
  by (induction al) auto

text \<open>Every key is assigned at most once, so the object is the grayscale entry followed
  by the entries whose guards hold.\<close>

lemma parsedOps_shape:
  "parsedOps raw b c =
     (''grayscale'', JBool (grayscale raw)) #
     (if \<not> isNaN (Number (blur_radius (blur raw))) \<and> gt0 (Number (blur_radius (blur raw)))
      then [(''blur'', JObj [(''radius'', JNum (Number (blur_radius (blur raw))))])] else []) @
     (if truthy_num (toInt (resize_width (resize raw)))
         \<and> truthy_num (toInt (resize_height (resize raw)))
      then [(''resize'', JObj [(''width'', num_or_null (toInt (resize_width (resize raw)))),
                               (''height'', num_or_null (toInt (resize_height (resize raw))))])]
      else []) @
     (if toNonNegInt (crop_x (crop raw)) \<noteq> None \<and> toNonNegInt (crop_y (crop raw)) \<noteq> None
         \<and> truthy_num (toInt (crop_width (crop raw)))
         \<and> truthy_num (toInt (crop_height (crop raw)))
      then [(''crop'', JObj [(''x'', num_or_null (toNonNegInt (crop_x (crop raw)))),
                             (''y'', num_or_null (toNonNegInt (crop_y (crop raw)))),
                             (''width'', num_or_null (toInt (crop_width (crop raw)))),
                             (''height'', num_or_null (toInt (crop_height (crop raw))))])]
      else []) @
     (if \<not> isNaN (Number b) \<and> gt0 (Number b) \<and> Number b \<noteq> Fin 1
      then [(''brightness'', JObj [(''factor'', JNum (Number b))])] else []) @
     (if \<not> isNaN (Number c) \<and> gt0 (Number c) \<and> Number c \<noteq> Fin 1
      then [(''contrast'', JObj [(''factor'', JNum (Number c))])] else [])"
  unfolding parsedOps_def Let_def
  by (simp add: set_prop_def update_fresh)

lemma floor_nonzero: "0 < q \<Longrightarrow> (\<lfloor>q\<rfloor> \<noteq> 0) = (1 \<le> (q::rat))"
  using zero_less_floor [of q] zero_le_floor [of q] by linarith

lemma truthy_toInt: "truthy_num (toInt t) = at_least_one (Number t)"
proof (cases "Number t")
  case (Fin q)
  then show ?thesis
    using floor_nonzero [of q]
    by (auto simp: toInt_def at_least_one_def isFinite_def gt0_def)
qed (simp_all add: toInt_def at_least_one_def isFinite_def gt0_def)

lemma toInt_value: "at_least_one (Number t) \<Longrightarrow> num_or_null (toInt t) = JNum (floor_js (Number t))"
  by (cases "Number t") (auto simp: toInt_def at_least_one_def isFinite_def gt0_def)

lemma toNonNegInt_Some: "(toNonNegInt t \<noteq> None) = nonneg_finite (Number t)"
  by (cases "Number t")
     (auto simp: toNonNegInt_def nonneg_finite_def isFinite_def ge0_def js_le_def)

lemma toNonNegInt_value:
  "nonneg_finite (Number t) \<Longrightarrow> num_or_null (toNonNegInt t) = JNum (floor_js (Number t))"
  by (cases "Number t")
     (auto simp: toNonNegInt_def nonneg_finite_def isFinite_def ge0_def js_le_def)

lemma factor_guard: "(\<not> isNaN n \<and> gt0 n \<and> n \<noteq> Fin 1) = factor_sent n"
  by (cases n) (auto simp: isNaN_def gt0_def factor_sent_def)

subsection \<open>Looking one key up\<close>

lemma map_of_cond:
  "map_of ((if p then [(k, v)] else []) @ rest) k' =
     (if p \<and> k' = k then Some v else map_of rest k')"
  by simp

lemma map_of_cond_last:
  "map_of (if p then [(k, v)] else []) k' = (if p \<and> k' = k then Some v else None)"
  by simp

lemma lookup_resize:
  "map_of (parsedOps raw b c) ''resize'' =
     (if truthy_num (toInt (resize_width (resize raw)))
         \<and> truthy_num (toInt (resize_height (resize raw)))
      then Some (JObj [(''width'', num_or_null (toInt (resize_width (resize raw)))),
                       (''height'', num_or_null (toInt (resize_height (resize raw))))])
      else None)"
  unfolding parsedOps_shape map_of.simps map_of_cond map_of_cond_last
  by simp

lemma lookup_crop:
  "map_of (parsedOps raw b c) ''crop'' =
     (if toNonNegInt (crop_x (crop raw)) \<noteq> None \<and> toNonNegInt (crop_y (crop raw)) \<noteq> None
         \<and> truthy_num (toInt (crop_width (crop raw)))
         \<and> truthy_num (toInt (crop_height (crop raw)))
      then Some (JObj [(''x'', num_or_null (toNonNegInt (crop_x (crop raw)))),
                       (''y'', num_or_null (toNonNegInt (crop_y (crop raw)))),
                       (''width'', num_or_null (toInt (crop_width (crop raw)))),
                       (''height'', num_or_null (toInt (crop_height (crop raw))))])
      else None)"
  unfolding parsedOps_shape map_of.simps map_of_cond map_of_cond_last
  by simp

lemma lookup_brightness:
  "map_of (parsedOps raw b c) ''brightness'' =
     (if \<not> isNaN (Number b) \<and> gt0 (Number b) \<and> Number b \<noteq> Fin 1
      then Some (JObj [(''factor'', JNum (Number b))]) else None)"
  unfolding parsedOps_shape map_of.simps map_of_cond map_of_cond_last
  by simp

lemma lookup_contrast:
  "map_of (parsedOps raw b c) ''contrast'' =
     (if \<not> isNaN (Number c) \<and> gt0 (Number c) \<and> Number c \<noteq> Fin 1
      then Some (JObj [(''factor'', JNum (Number c))]) else None)"
  unfolding parsedOps_shape map_of.simps map_of_cond map_of_cond_last
  by simp

lemma sepia_fields:
  "resize (raw\<lparr>sepia := v\<rparr>) = resize raw"
  "crop (raw\<lparr>sepia := v\<rparr>) = crop raw"
  "grayscale (raw\<lparr>sepia := v\<rparr>) = grayscale raw"
  "blur (raw\<lparr>sepia := v\<rparr>) = blur raw"
  by simp_all

lemma map_of_head: "map_of ((k, v) # rest) k = Some v"
  by simp

lemma key_head: "k \<in> set (keys ((k, v) # rest))"
  by (simp add: keys_def)

lemma set_cond: "(set (map fst (if p then [(k, v)] else [])) \<subseteq> S) = (p \<longrightarrow> k \<in> S)"
  by (cases p) simp_all

lemma parsedOps_initial: "parsedOps initialOps ''1'' ''1'' = [(''grayscale'', JBool False)]"
  unfolding parsedOps_shape truthy_toInt factor_guard
  by (simp add: initialOps_def Number_empty Number_1 factor_sent_def at_least_one_def
      isNaN_def gt0_def)

subsection \<open>Resize\<close>

text \<open>
  Claim C1, as the code has it. The resize key is present exactly when both texts convert
  to a finite number of at least 1, and then its payload holds the two floored values.
  A text that converts to a value above 0 and below 1 passes \<open>toInt\<close> with the
  floor 0, which the truthiness test \<open>rw && rh\<close> then rejects.
\<close>

theorem resize_included_iff:
  "map_of (parsedOps raw b c) ''resize'' =
     (if at_least_one (Number (resize_width (resize raw)))
         \<and> at_least_one (Number (resize_height (resize raw)))
      then Some (JObj [(''width'', JNum (floor_js (Number (resize_width (resize raw))))),
                       (''height'', JNum (floor_js (Number (resize_height (resize raw)))))])
      else None)"
  unfolding lookup_resize truthy_toInt
  by (simp add: toInt_value)

text \<open>
  Claim C1 as worded fails for the width \<open>0.5\<close> and the height \<open>600\<close>: both texts
  parse, are finite and are above 0, yet the resize key is absent.
\<close>

theorem resize_rule_counterexample:
  "spec_positive_int ''0.5'' \<and> spec_positive_int ''600'' \<and>
   map_of (parsedOps
             (initialOps\<lparr>resize := \<lparr>resize_width = ''0.5'', resize_height = ''600''\<rparr>\<rparr>)
             ''1'' ''1'') ''resize'' = None"
  unfolding lookup_resize truthy_toInt
  by (simp add: spec_positive_int_def at_least_one_def
      Number_half Number_600 isNaN_def isFinite_def gt0_def initialOps_def)

text \<open>The examples of the specification: 800 by 600 is sent as it is; a zero width or a
  width that is no number drops the key.\<close>

lemma resize_examples:
  "map_of (parsedOps
             (initialOps\<lparr>resize := \<lparr>resize_width = ''800'', resize_height = ''600''\<rparr>\<rparr>)
             ''1'' ''1'') ''resize''
     = Some (JObj [(''width'', JNum (Fin 800)), (''height'', JNum (Fin 600))])"
  "map_of (parsedOps
             (initialOps\<lparr>resize := \<lparr>resize_width = ''0'', resize_height = ''600''\<rparr>\<rparr>)
             ''1'' ''1'') ''resize'' = None"
  "map_of (parsedOps
             (initialOps\<lparr>resize := \<lparr>resize_width = ''abc'', resize_height = ''600''\<rparr>\<rparr>)
             ''1'' ''1'') ''resize'' = None"
  unfolding lookup_resize truthy_toInt
  by (simp_all add: toInt_def at_least_one_def Number_800 Number_600 Number_0 Number_abc
      isFinite_def gt0_def initialOps_def)

subsection \<open>Crop\<close>

text \<open>
  Claim C3, as the code has it. The crop key is present exactly when x and y convert to
  finite numbers of at least 0 and width and height to finite numbers of at least 1, and
  then its payload holds the four floored values.
\<close>

theorem crop_included_iff:
  "map_of (parsedOps raw b c) ''crop'' =
     (if nonneg_finite (Number (crop_x (crop raw))) \<and> nonneg_finite (Number (crop_y (crop raw)))
         \<and> at_least_one (Number (crop_width (crop raw)))
         \<and> at_least_one (Number (crop_height (crop raw)))
      then Some (JObj [(''x'', JNum (floor_js (Number (crop_x (crop raw))))),
                       (''y'', JNum (floor_js (Number (crop_y (crop raw))))),
                       (''width'', JNum (floor_js (Number (crop_width (crop raw))))),
                       (''height'', JNum (floor_js (Number (crop_height (crop raw)))))])
      else None)"
  unfolding lookup_crop truthy_toInt toNonNegInt_Some
  by (simp add: toInt_value toNonNegInt_value)

text \<open>
  Claim C3 as worded fails for x \<open>0\<close>, y \<open>0\<close>, width \<open>0.5\<close>, height \<open>50\<close>: each of
  the four texts passes its rule, yet the crop key is absent.
\<close>

theorem crop_rule_counterexample:
  "spec_nonneg_int ''0'' \<and> spec_positive_int ''0.5'' \<and> spec_positive_int ''50'' \<and>
   map_of (parsedOps
             (initialOps\<lparr>crop := \<lparr>crop_x = ''0'', crop_y = ''0'',
                                  crop_width = ''0.5'', crop_height = ''50''\<rparr>\<rparr>)
             ''1'' ''1'') ''crop'' = None"
  unfolding lookup_crop truthy_toInt toNonNegInt_Some
  by (simp add: spec_positive_int_def spec_nonneg_int_def at_least_one_def
      Number_half Number_50 Number_0 isNaN_def isFinite_def gt0_def ge0_def js_le_def
      initialOps_def)

text \<open>The examples of the specification: a crop at the origin is sent with its four
  values; a negative x drops the key.\<close>

lemma crop_examples:
  "map_of (parsedOps
             (initialOps\<lparr>crop := \<lparr>crop_x = ''0'', crop_y = ''0'',
                                  crop_width = ''100'', crop_height = ''50''\<rparr>\<rparr>)
             ''1'' ''1'') ''crop''
     = Some (JObj [(''x'', JNum (Fin 0)), (''y'', JNum (Fin 0)),
                   (''width'', JNum (Fin 100)), (''height'', JNum (Fin 50))])"
  "map_of (parsedOps
             (initialOps\<lparr>crop := \<lparr>crop_x = ''-1'', crop_y = ''0'',
                                  crop_width = ''100'', crop_height = ''50''\<rparr>\<rparr>)
             ''1'' ''1'') ''crop'' = None"
  unfolding lookup_crop truthy_toInt toNonNegInt_Some
  by (simp_all add: toInt_def toNonNegInt_def at_least_one_def nonneg_finite_def
      Number_0 Number_100 Number_50 Number_minus_1 isFinite_def gt0_def ge0_def js_le_def
      initialOps_def)

subsection \<open>Brightness and contrast\<close>

text \<open>
  Claim C2, as the code has it. The brightness key, and likewise the contrast key, is
  present exactly when the text converts to a number that is not NaN, is above 0 and is
  not 1; the guard is \<open>!Number.isNaN\<close>, so positive infinity is sent too.
\<close>

theorem factor_included_iff:
  "map_of (parsedOps raw b c) ''brightness'' =
     (if factor_sent (Number b) then Some (JObj [(''factor'', JNum (Number b))]) else None)
   \<and> map_of (parsedOps raw b c) ''contrast'' =
     (if factor_sent (Number c) then Some (JObj [(''factor'', JNum (Number c))]) else None)"
  unfolding lookup_brightness lookup_contrast factor_guard
  by simp

text \<open>
  Claim C2 as worded fails for the brightness text \<open>Infinity\<close>: it does not convert to a
  finite number, yet the brightness key is present.
\<close>

theorem factor_rule_counterexample:
  "\<not> spec_factor ''Infinity'' \<and>
   map_of (parsedOps initialOps ''Infinity'' ''1'') ''brightness''
     = Some (JObj [(''factor'', JNum PosInf)])"
  unfolding lookup_brightness factor_guard
  by (simp add: spec_factor_def factor_sent_def Number_Infinity isFinite_def)

text \<open>The examples of the specification: the factor 1.5 is sent; the factors 1, 0 and -2
  are not.\<close>

lemma factor_examples:
  "map_of (parsedOps raw ''1.5'' c) ''brightness''
     = Some (JObj [(''factor'', JNum (Fin (3 / 2)))])"
  "map_of (parsedOps raw ''1'' c) ''brightness'' = None"
  "map_of (parsedOps raw ''0'' c) ''brightness'' = None"
  "map_of (parsedOps raw ''-2'' c) ''brightness'' = None"
  "map_of (parsedOps raw b ''1'') ''contrast'' = None"
  unfolding lookup_brightness lookup_contrast factor_guard
  by (simp_all add: factor_sent_def Number_1_5 Number_1 Number_0 Number_minus_2)

subsection \<open>Grayscale and the set of keys\<close>

text \<open>
  Claim C4. Whatever the other fields hold, the normalized set has the grayscale key with
  the boolean of the checkbox; and no other key is guaranteed, since the initial form
  state yields the grayscale key alone.
\<close>

theorem grayscale_always_present:
  "map_of (parsedOps raw b c) ''grayscale'' = Some (JBool (grayscale raw))
   \<and> ''grayscale'' \<in> set (keys (parsedOps raw b c))
   \<and> keys (parsedOps initialOps ''1'' ''1'') = [''grayscale'']"
proof -
  have "map_of (parsedOps raw b c) ''grayscale'' = Some (JBool (grayscale raw))"
    unfolding parsedOps_shape by (rule map_of_head)
  moreover have "''grayscale'' \<in> set (keys (parsedOps raw b c))"
    unfolding parsedOps_shape by (rule key_head)
  moreover have "keys (parsedOps initialOps ''1'' ''1'') = [''grayscale'']"
    by (simp add: parsedOps_initial keys_def)
  ultimately show ?thesis by blast
qed

text \<open>
  Claim C10. The keys of the normalized set are among grayscale, blur, resize, crop,
  brightness and contrast; sepia is never one of them, and the sepia flag of the raw
  state has no influence on the result.
\<close>

theorem payload_keys:
  "set (keys (parsedOps raw b c))
     \<subseteq> {''grayscale'', ''blur'', ''resize'', ''crop'', ''brightness'', ''contrast''}
   \<and> ''sepia'' \<notin> set (keys (parsedOps raw b c))
   \<and> parsedOps (raw\<lparr>sepia := v\<rparr>) b c = parsedOps raw b c"
proof -
  have sub: "set (keys (parsedOps raw b c))
     \<subseteq> {''grayscale'', ''blur'', ''resize'', ''crop'', ''brightness'', ''contrast''}"
    unfolding parsedOps_shape keys_def list.map map_append set_append list.set Un_subset_iff
      insert_subset set_cond
    by simp
  then have "''sepia'' \<notin> set (keys (parsedOps raw b c))"
    by auto
  moreover have "parsedOps (raw\<lparr>sepia := v\<rparr>) b c = parsedOps raw b c"
    by (simp only: parsedOps_def sepia_fields)
  ultimately show ?thesis using sub by blast
qed

section \<open>Properties of the patch by path\<close>

lemma split_on_no_sep: "d \<notin> set s \<Longrightarrow> split_on d s = [s]"
  by (induction s) auto

lemma split_on_append: "d \<notin> set g \<Longrightarrow> split_on d (g @ d # k) = g # split_on d k"
  by (induction g) auto

lemma map_of_update:
  "map_of (AList.update k v al) k' = (if k' = k then Some v else map_of al k')"
  by (simp add: update_conv')

lemma updateOps_two_level:
  assumes "CHR ''.'' \<notin> set g" and "CHR ''.'' \<notin> set k" and "k \<noteq> []"
    and "map_of prev g \<noteq> None"
  shows "updateOps (g @ CHR ''.'' # k) v prev
           = AList.update g (JObj (AList.update k v (spread (get_prop prev g)))) prev"
  using assms
  by (auto simp add: updateOps_def set_prop_def split_on_append split_on_no_sep truthy_str_def)

lemma updateOps_top_level:
  assumes "CHR ''.'' \<notin> set p" and "p \<noteq> ''__proto__''"
  shows "updateOps p v prev = AList.update p v prev"
  using assms by (simp add: updateOps_def set_prop_def split_on_no_sep)

text \<open>
  Claim C9. A patch with the path \<open>g.k\<close> (two parts without a dot, a non-empty key) on a
  state whose entry \<open>g\<close> is an object leaves under \<open>g\<close> the same object with \<open>k\<close> set to
  the value and every other field as it was, and leaves every other entry of the state as
  it was. A patch with a path without a dot (other than \<open>__proto__\<close>, which is no
  property of the state) sets that entry and leaves every other one.
\<close>

theorem patch_replaces_only_leaf:
  "(CHR ''.'' \<notin> set g \<and> CHR ''.'' \<notin> set k \<and> k \<noteq> [] \<and> map_of prev g = Some (JObj fs) \<longrightarrow>
      map_of (updateOps (g @ ''.'' @ k) v prev) g = Some (JObj (AList.update k v fs))
      \<and> map_of (AList.update k v fs) k = Some v
      \<and> (\<forall>k'. k' \<noteq> k \<longrightarrow> map_of (AList.update k v fs) k' = map_of fs k')
      \<and> (\<forall>g'. g' \<noteq> g \<longrightarrow> map_of (updateOps (g @ ''.'' @ k) v prev) g' = map_of prev g'))
   \<and> (CHR ''.'' \<notin> set p \<and> p \<noteq> ''__proto__'' \<longrightarrow>
        map_of (updateOps p v prev) p = Some v
        \<and> (\<forall>g'. g' \<noteq> p \<longrightarrow> map_of (updateOps p v prev) g' = map_of prev g'))"
proof -
  have "map_of (updateOps (g @ ''.'' @ k) v prev) g = Some (JObj (AList.update k v fs))
      \<and> (\<forall>g'. g' \<noteq> g \<longrightarrow> map_of (updateOps (g @ ''.'' @ k) v prev) g' = map_of prev g')"
    if "CHR ''.'' \<notin> set g" "CHR ''.'' \<notin> set k" "k \<noteq> []" "map_of prev g = Some (JObj fs)"
    using that by (simp add: updateOps_two_level map_of_update get_prop_def)
  moreover have "map_of (updateOps p v prev) p = Some v
        \<and> (\<forall>g'. g' \<noteq> p \<longrightarrow> map_of (updateOps p v prev) g' = map_of prev g')"
    if "CHR ''.'' \<notin> set p" "p \<noteq> ''__proto__''"
    using that by (simp add: updateOps_top_level map_of_update)
  ultimately show ?thesis
    by (simp add: map_of_update)
qed

theorem patch_replaces_only_leaf_witness:
  "map_of (updateOps ''resize.width'' (JStr ''800'') (ops_obj initialOps)) ''resize''
     = Some (JObj [(''width'', JStr ''800''), (''height'', JStr [])])
   \<and> map_of (updateOps ''resize.width'' (JStr ''800'') (ops_obj initialOps)) ''crop''
     = map_of (ops_obj initialOps) ''crop''
   \<and> map_of (updateOps ''grayscale'' (JBool True) (ops_obj initialOps)) ''grayscale''
     = Some (JBool True)
   \<and> map_of (updateOps ''grayscale'' (JBool True) (ops_obj initialOps)) ''resize''
     = map_of (ops_obj initialOps) ''resize''"
  using patch_replaces_only_leaf [of "''resize''" "''width''" "ops_obj initialOps"
      "[(''width'', JStr []), (''height'', JStr [])]" "JStr ''800''" "''grayscale''"]
    patch_replaces_only_leaf [of "''resize''" "''width''" "ops_obj initialOps"
      "[(''width'', JStr []), (''height'', JStr [])]" "JBool True" "''grayscale''"]
  by (simp add: ops_obj_def initialOps_def)

text \<open>The eight patches the form issues, on the typed raw state: each changes the one
  field its path names.\<close>

lemma updateOps_call_sites:
  "updateOps ''resize.width'' (JStr t) (ops_obj raw)
     = ops_obj (raw\<lparr>resize := (resize raw)\<lparr>resize_width := t\<rparr>\<rparr>)"
  "updateOps ''resize.height'' (JStr t) (ops_obj raw)
     = ops_obj (raw\<lparr>resize := (resize raw)\<lparr>resize_height := t\<rparr>\<rparr>)"
  "updateOps ''crop.x'' (JStr t) (ops_obj raw)
     = ops_obj (raw\<lparr>crop := (crop raw)\<lparr>crop_x := t\<rparr>\<rparr>)"
  "updateOps ''crop.y'' (JStr t) (ops_obj raw)
     = ops_obj (raw\<lparr>crop := (crop raw)\<lparr>crop_y := t\<rparr>\<rparr>)"
  "updateOps ''crop.width'' (JStr t) (ops_obj raw)
     = ops_obj (raw\<lparr>crop := (crop raw)\<lparr>crop_width := t\<rparr>\<rparr>)"
  "updateOps ''crop.height'' (JStr t) (ops_obj raw)
     = ops_obj (raw\<lparr>crop := (crop raw)\<lparr>crop_height := t\<rparr>\<rparr>)"
  "updateOps ''grayscale'' (JBool f) (ops_obj raw)
     = ops_obj (raw\<lparr>grayscale := f\<rparr>)"
  "updateOps ''blur.radius'' (JStr t) (ops_obj raw)
     = ops_obj (raw\<lparr>blur := (blur raw)\<lparr>blur_radius := t\<rparr>\<rparr>)"
  by (simp_all add: updateOps_def set_prop_def ops_obj_def get_prop_def truthy_str_def)

section \<open>Properties of the flows\<close>

lemma keys_nonempty: "keys (parsedOps raw b c) \<noteq> []"
  by (simp add: parsedOps_shape keys_def)

subsection \<open>Upload without a file\<close>

text \<open>
  Claim C6. When no file is chosen, \<open>doUpload\<close> only sets the error text
  ``Please choose an image to upload.'': it sends no request, and the image list, the
  selection and the uploading flag stay as they were.
\<close>

theorem upload_without_file:
  "uploadFile s = None \<longrightarrow>
     doUpload uploaded listed s = (s\<lparr>error := ''Please choose an image to upload.''\<rparr>, [])
     \<and> error (fst (doUpload uploaded listed s)) = ''Please choose an image to upload.''
     \<and> snd (doUpload uploaded listed s) = []
     \<and> images (fst (doUpload uploaded listed s)) = images s
     \<and> selectedImageId (fst (doUpload uploaded listed s)) = selectedImageId s
     \<and> uploading (fst (doUpload uploaded listed s)) = uploading s"
  by (simp add: doUpload_def)

theorem upload_without_file_witness:
  "uploadFile initialState = None
   \<and> doUpload (Inl (Error ''TypeError'' ''Failed to fetch''))
        (Inl (Error ''TypeError'' ''Failed to fetch'')) initialState
       = (initialState\<lparr>error := ''Please choose an image to upload.''\<rparr>, [])"
  using upload_without_file [of initialState "Inl (Error ''TypeError'' ''Failed to fetch'')"
      "Inl (Error ''TypeError'' ''Failed to fetch'')"]
  by (simp add: initialState_def)

subsection \<open>The busy flags\<close>

lemma fetchImages_busy:
  "uploading (fetchImages sel listed s) = uploading s"
  "processing (fetchImages sel listed s) = processing s"
  by (simp_all add: fetchImages_def Let_def split: sum.splits)

text \<open>
  Claim C7. An upload that passes its precondition (a file is chosen) ends with the
  uploading flag false, and a process run that passes its preconditions (an image is
  selected; the emptiness guard cannot fail) ends with the processing flag false,
  whatever the backend answers to the upload or process request and to the list request:
  a rejected request, a status outside 200 to 299, an unreadable body, or success.
\<close>

theorem busy_flag_released:
  "(uploadFile s \<noteq> None \<longrightarrow> \<not> uploading (fst (doUpload uploaded listed s)))
   \<and> (truthy_str (selectedImageId s) \<longrightarrow>
        \<not> processing (fst (doProcess processed listed s)))"
proof -
  have "\<not> processing (fst (process_run processed listed s))"
    by (simp add: process_run_def Let_def split_def)
  then have "truthy_str (selectedImageId s) \<Longrightarrow>
      \<not> processing (fst (doProcess processed listed s))"
    using keys_nonempty by (simp add: doProcess_def)
  moreover have "uploadFile s \<noteq> None \<Longrightarrow> \<not> uploading (fst (doUpload uploaded listed s))"
    by (auto simp add: doUpload_def Let_def split_def)
  ultimately show ?thesis by blast
qed

theorem busy_flag_released_witness:
  "\<not> uploading (fst (doUpload (Inr (Response 500 (Inl (Error ''SyntaxError'' ''Unexpected token'')) None))
                      (Inl (Error ''TypeError'' ''Failed to fetch''))
                      (initialState\<lparr>uploadFile := Some (File ''cat.png''), uploading := True\<rparr>)))
   \<and> \<not> processing (fst (doProcess (Inl (Error ''TypeError'' ''Failed to fetch''))
                      (Inl (Error ''TypeError'' ''Failed to fetch''))
                      (initialState\<lparr>selectedImageId := ''img-1'', processing := True\<rparr>)))"
  using busy_flag_released [of "initialState\<lparr>uploadFile := Some (File ''cat.png''), uploading := True\<rparr>"
      "Inr (Response 500 (Inl (Error ''SyntaxError'' ''Unexpected token'')) None)"
      "Inl (Error ''TypeError'' ''Failed to fetch'')"]
    busy_flag_released [of "initialState\<lparr>selectedImageId := ''img-1'', processing := True\<rparr>" _
      "Inl (Error ''TypeError'' ''Failed to fetch'')" "Inl (Error ''TypeError'' ''Failed to fetch'')"]
  by (simp add: initialState_def truthy_str_def)

subsection \<open>The list refresh\<close>

lemma show_nat_503: "show_nat 503 = ''503''"
  by code_simp

text \<open>
  Claim C8. When the list refresh fails, the image list and the selection stay as they
  were and the error text is set: to the text of the thrown error for a rejected request,
  to ``Failed to list images (status)'' for a status outside 200 to 299. When it succeeds,
  the image list is replaced by the delivered one, and the first image becomes selected if
  the refresh saw no selection (\<open>sel\<close> is empty) and the delivered list is not empty.
\<close>

theorem list_refresh:
  "(listing listed = None \<longrightarrow>
      images (fetchImages sel listed s) = images s
      \<and> selectedImageId (fetchImages sel listed s) = selectedImageId s)
   \<and> (\<forall>e. listed = Inl e \<longrightarrow> error (fetchImages sel listed s) = error_text e)
   \<and> (\<forall>res. listed = Inr res \<and> \<not> ok res \<longrightarrow>
         error (fetchImages sel listed s)
           = ''Failed to list images ('' @ show_nat (status res) @ '')'')
   \<and> (\<forall>data. listing listed = Some data \<longrightarrow>
         images (fetchImages sel listed s) = data
         \<and> selectedImageId (fetchImages sel listed s)
             = (if sel = [] \<and> data \<noteq> [] then image_id (hd data) else selectedImageId s)
         \<and> error (fetchImages sel listed s) = error s)"
  by (auto simp add: fetchImages_def listing_def Let_def error_text_def truthy_str_def
      hd_conv_nth split: sum.splits if_splits)

theorem list_refresh_witness:
  "images (fetchImages [] (Inl (Error ''TypeError'' ''Failed to fetch''))
            (initialState\<lparr>images := [\<lparr>image_id = ''img-1'', filename = ''cat.png'',
                                        size_bytes = 2048, variants = []\<rparr>]\<rparr>))
     = [\<lparr>image_id = ''img-1'', filename = ''cat.png'', size_bytes = 2048, variants = []\<rparr>]
   \<and> error (fetchImages [] (Inl (Error ''TypeError'' ''Failed to fetch''))
            (initialState\<lparr>images := [\<lparr>image_id = ''img-1'', filename = ''cat.png'',
                                        size_bytes = 2048, variants = []\<rparr>]\<rparr>))
     = ''Failed to fetch''
   \<and> error (fetchImages [] (Inr (Response 503 (Inl (Error ''SyntaxError'' ''Unexpected token'')) None))
            initialState)
     = ''Failed to list images (503)''
   \<and> images (fetchImages []
        (Inr (Response 200
               (Inr [\<lparr>image_id = ''img-2'', filename = ''dog.png'', size_bytes = 10, variants = []\<rparr>])
               None))
        initialState)
     = [\<lparr>image_id = ''img-2'', filename = ''dog.png'', size_bytes = 10, variants = []\<rparr>]
   \<and> selectedImageId (fetchImages []
        (Inr (Response 200
               (Inr [\<lparr>image_id = ''img-2'', filename = ''dog.png'', size_bytes = 10, variants = []\<rparr>])
               None))
        initialState)
     = ''img-2''"
proof -
  let ?old = "[\<lparr>image_id = ''img-1'', filename = ''cat.png'', size_bytes = 2048, variants = []\<rparr>]"
  let ?new = "[\<lparr>image_id = ''img-2'', filename = ''dog.png'', size_bytes = 10, variants = []\<rparr>]"
  let ?down = "Inl (Error ''TypeError'' ''Failed to fetch'') :: image list fetched"
  let ?bad = "Inr (Response 503 (Inl (Error ''SyntaxError'' ''Unexpected token'')) None) :: image list fetched"
  let ?good = "Inr (Response 200 (Inr ?new) None) :: image list fetched"
  have "listing ?down = None"
    by (simp add: listing_def)
  with list_refresh [of ?down "[]" "initialState\<lparr>images := ?old\<rparr>"]
  have a: "images (fetchImages [] ?down (initialState\<lparr>images := ?old\<rparr>)) = ?old
      \<and> error (fetchImages [] ?down (initialState\<lparr>images := ?old\<rparr>)) = ''Failed to fetch''"
    by (simp add: error_text_def truthy_str_def)
  from list_refresh [of ?bad "[]" initialState]
  have b: "error (fetchImages [] ?bad initialState) = ''Failed to list images (503)''"
    by (simp add: show_nat_503 ok_def)
  have "listing ?good = Some ?new"
    by (simp add: listing_def ok_def)
  with list_refresh [of ?good "[]" initialState]
  have c: "images (fetchImages [] ?good initialState) = ?new
      \<and> selectedImageId (fetchImages [] ?good initialState) = ''img-2''"
    by simp
  from a b c show ?thesis by simp
qed

subsection \<open>The emptiness guard\<close>

text \<open>
  Claim C5. The normalized set always has a key, so with an image selected \<open>doProcess\<close>
  goes past both guards: it is the run after the guards, whose first request is the
  process request for the selected image with the normalized set. The initial form state
  normalizes to the grayscale key alone with the value false, and passes like any other.
\<close>

theorem emptiness_guard_never_fires:
  "keys (parsedOps raw b c) \<noteq> []
   \<and> (truthy_str (selectedImageId s) \<longrightarrow>
        doProcess processed listed s = process_run processed listed s
        \<and> hd (snd (doProcess processed listed s))
            = PostProcess (selectedImageId s) (parsedOps (ops s) (brightness s) (contrast s))
        \<and> snd (doProcess processed listed s) \<noteq> [])
   \<and> parsedOps initialOps ''1'' ''1'' = [(''grayscale'', JBool False)]"
proof -
  have run: "hd (snd (process_run processed listed s))
            = PostProcess (selectedImageId s) (parsedOps (ops s) (brightness s) (contrast s))
        \<and> snd (process_run processed listed s) \<noteq> []"
    by (simp add: process_run_def process_try_def Let_def split_def split: sum.splits)
  have "truthy_str (selectedImageId s) \<Longrightarrow>
      doProcess processed listed s = process_run processed listed s"
    using keys_nonempty by (simp add: doProcess_def)
  with keys_nonempty run show ?thesis
    by (simp add: parsedOps_initial)
qed

theorem emptiness_guard_never_fires_witness:
  "truthy_str (selectedImageId (initialState\<lparr>selectedImageId := ''img-1''\<rparr>))
   \<and> hd (snd (doProcess (Inl (Error ''TypeError'' ''Failed to fetch''))
                 (Inl (Error ''TypeError'' ''Failed to fetch''))
                 (initialState\<lparr>selectedImageId := ''img-1''\<rparr>)))
       = PostProcess ''img-1'' [(''grayscale'', JBool False)]"
proof -
  let ?s = "initialState\<lparr>selectedImageId := ''img-1''\<rparr>"
  let ?down = "Inl (Error ''TypeError'' ''Failed to fetch'')"
  have sel: "truthy_str (selectedImageId ?s)"
    by (simp add: truthy_str_def)
  with emptiness_guard_never_fires [of initialOps "''1''" "''1''" ?s ?down ?down]
  have "hd (snd (doProcess ?down ?down ?s))
      = PostProcess (selectedImageId ?s) (parsedOps (ops ?s) (brightness ?s) (contrast ?s))"
    by blast
  also have "\<dots> = PostProcess ''img-1'' [(''grayscale'', JBool False)]"
    by (simp add: initialState_def parsedOps_initial)
  finally show ?thesis using sel by simp
qed

end
